theory Spec2Isabelle
  imports Complex_Main "HOL-Library.Word"
begin

section \<open>Escape-time kernels of HolomorphicMotions.py\<close>

text \<open>
  The source computes with Python integers and with double-precision complex numbers.
  Integers (\<open>max_iter\<close>, \<open>width\<close>, \<open>height\<close>, the loop counter and the returned
  counts) are modelled as \<open>int\<close>. The iteration of the two evaluators is modelled over
  the exact type \<open>complex\<close>: their properties below follow from the structure of the
  loops and from \<open>abs(0) = 0\<close> and \<open>0 * 0 + c = c\<close>, which hold for the float64 operations
  as well. The sample coordinates of the grid samplers are modelled with the rounding of
  float64, because the rounded values decide what the samplers return. The cells of the
  image array have dtype \<open>uint32\<close> and are modelled as \<open>32 word\<close>; storing an integer
  into a cell is \<open>word_of_int\<close>.
\<close>

subsection \<open>The escape evaluators\<close>

text \<open>
  \<^verbatim>\<open>
  def mandelbrot(c, max_iter):
      z = 0
      for n in range(max_iter):
          if abs(z) > 2:
              return n
          z = z * z + c
      return max_iter
  \<close>
  The \<open>for\<close> loop is the recursive function \<open>mandelbrot_loop\<close> on the loop state
  \<open>(z, n)\<close>; \<open>range(max_iter)\<close> is exhausted as soon as \<open>n < max_iter\<close> fails.
\<close>

function mandelbrot_loop :: "complex \<Rightarrow> complex \<Rightarrow> int \<Rightarrow> int \<Rightarrow> int" where
  "mandelbrot_loop c z n max_iter =
     (if n < max_iter then
        (if cmod z > 2 then n
         else mandelbrot_loop c (z * z + c) (n + 1) max_iter)
      else max_iter)"
  by pat_completeness auto
termination
  by (relation "measure (\<lambda>(c, z, n, max_iter). nat (max_iter - n))") auto

declare mandelbrot_loop.simps [simp del]

definition mandelbrot :: "complex \<Rightarrow> int \<Rightarrow> int" where
  "mandelbrot c max_iter = mandelbrot_loop c 0 0 max_iter"

text \<open>
  \<^verbatim>\<open>
  def julia_boundary(c, z, max_iter):
      for n in range(max_iter):
          if abs(z) > 2:
              return n
          z = z * z + c
      return -1
  \<close>
\<close>

function julia_boundary_loop :: "complex \<Rightarrow> complex \<Rightarrow> int \<Rightarrow> int \<Rightarrow> int" where
  "julia_boundary_loop c z n max_iter =
     (if n < max_iter then
        (if cmod z > 2 then n
         else julia_boundary_loop c (z * z + c) (n + 1) max_iter)
      else - 1)"
  by pat_completeness auto
termination
  by (relation "measure (\<lambda>(c, z, n, max_iter). nat (max_iter - n))") auto

declare julia_boundary_loop.simps [simp del]

definition julia_boundary :: "complex \<Rightarrow> complex \<Rightarrow> int \<Rightarrow> int" where
  "julia_boundary c z max_iter = julia_boundary_loop c z 0 max_iter"

subsection \<open>The orbit, as the specification describes it\<close>



subsection \<open>Double-precision values in the grid samplers\<close>

text \<open>
  The sample coordinates are computed in float64, and the coordinates a sampler produces
  decide which cells of the image agree, so for them the rounding is modelled.
  \<open>fl64 x\<close> is the float64 value nearest to the real \<open>x\<close>: 53 significant bits, ties
  to the even significand, with the fixed spacing \<open>2\<^sup>-\<^sup>1\<^sup>0\<^sup>7\<^sup>4\<close> below \<open>2\<^sup>-\<^sup>1\<^sup>0\<^sup>2\<^sup>2\<close>. Overflow
  to an infinity is not represented: values are taken to stay below \<open>2\<^sup>1\<^sup>0\<^sup>2\<^sup>4\<close> in
  magnitude. The two zeros of float64 are not distinguished.
\<close>

definition round_half_even :: "real \<Rightarrow> int" where
  "round_half_even r =
     (let f = \<lfloor>r\<rfloor> in
      if r - real_of_int f < 1 / 2 then f
      else if r - real_of_int f > 1 / 2 then f + 1
      else if even f then f else f + 1)"

definition fl64 :: "real \<Rightarrow> real" where
  "fl64 x =
     (if x = 0 then 0
      else
        let e = max \<lfloor>log 2 \<bar>x\<bar>\<rfloor> (- 1022);
            q = 2 powr real_of_int (e - 52)
        in real_of_int (round_half_even (x / q)) * q)"

text \<open>
  A float64 value of the samplers is a finite number or NaN; NaN arises from \<open>0 / 0\<close>.
\<close>

datatype f64 = Finite real | NaN

subsection \<open>The grid samplers\<close>

datatype error = ValueError

text \<open>
  Both samplers are compiled with \<open>@njit(parallel=True)\<close>. The call
  \<open>np.linspace(start, stop, num)\<close> is then executed by the parallel implementation of
  Numba, which is not part of the repository. It allocates an array of \<open>num\<close> entries
  (a negative \<open>num\<close> raises \<open>ValueError\<close>) and sets entry \<open>i\<close> to
  \<open>start + delta * (i / div)\<close> with \<open>delta = stop - start\<close> and \<open>div = num - 1\<close>,
  computed in float64. The value \<open>stop\<close> is not stored. For a single sample \<open>div\<close> is 0
  and \<open>0 / 0\<close> is NaN, so the sample is NaN. The indices are far below \<open>2\<^sup>5\<^sup>3\<close>, so their
  conversion to float64 is exact.
\<close>

definition linspace :: "real \<Rightarrow> real \<Rightarrow> int \<Rightarrow> error + f64 list" where
  "linspace start stop num =
     (if num < 0 then Inl ValueError
      else
        let d = num - 1;
            delta = fl64 (stop - start)
        in Inr (map (\<lambda>i. if d = 0 then NaN
                         else Finite (fl64 (start + fl64 (delta * fl64 (real i / real_of_int d)))))
                    [0..<nat num]))"

text \<open>
  The samplers pass \<open>complex(r1[j], r2[i])\<close> to an evaluator. For two finite
  coordinates this is the evaluator above. A comparison with NaN is false and an
  operation on NaN gives NaN: when a coordinate is NaN, every test \<open>abs(z) > 2\<close> of the
  loop fails (in \<open>mandelbrot\<close> the first test sees \<open>z = 0\<close>, every later one an iterate with
  a NaN component), and the loop ends by exhausting its range.
\<close>

definition mandelbrot_at :: "f64 \<Rightarrow> f64 \<Rightarrow> int \<Rightarrow> int" where
  "mandelbrot_at x y max_iter =
     (case (x, y) of
        (Finite a, Finite b) \<Rightarrow> mandelbrot (Complex a b) max_iter
      | _ \<Rightarrow> max_iter)"

definition julia_boundary_at :: "complex \<Rightarrow> f64 \<Rightarrow> f64 \<Rightarrow> int \<Rightarrow> int" where
  "julia_boundary_at c x y max_iter =
     (case (x, y) of
        (Finite a, Finite b) \<Rightarrow> julia_boundary c (Complex a b) max_iter
      | _ \<Rightarrow> - 1)"

text \<open>
  \<^verbatim>\<open>
  def mandelbrot_set(xmin, xmax, ymin, ymax, width, height, max_iter):
      r1 = np.linspace(xmin, xmax, width)
      r2 = np.linspace(ymin, ymax, height)
      img = np.empty((height, width), dtype=np.uint32)
      for i in prange(height):
          for j in prange(width):
              c = complex(r1[j], r2[i])
              img[i, j] = mandelbrot(c, max_iter)
      return (r1, r2, img)
  \<close>
  Every cell of \<open>img\<close> is written exactly once and no cell is read, so the two loops
  are the nested \<open>map\<close> below: \<open>img ! i ! j\<close> is the cell \<open>img[i, j]\<close>.
\<close>

type_synonym image = "32 word list list"

definition mandelbrot_set ::
  "real \<Rightarrow> real \<Rightarrow> real \<Rightarrow> real \<Rightarrow> int \<Rightarrow> int \<Rightarrow> int \<Rightarrow> error + (f64 list \<times> f64 list \<times> image)" where
  "mandelbrot_set xmin xmax ymin ymax width height max_iter =
     (case linspace xmin xmax width of
        Inl e \<Rightarrow> Inl e
      | Inr r1 \<Rightarrow>
          (case linspace ymin ymax height of
             Inl e \<Rightarrow> Inl e
           | Inr r2 \<Rightarrow>
               Inr (r1, r2,
                    map (\<lambda>i. map (\<lambda>j. word_of_int (mandelbrot_at (r1 ! j) (r2 ! i) max_iter))
                                [0..<nat width])
                        [0..<nat height])))"

text \<open>
  \<^verbatim>\<open>
  def julia_set_boundary(c, xmin, xmax, ymin, ymax, width, height, max_iter):
      r1 = np.linspace(xmin, xmax, width)
      r2 = np.linspace(ymin, ymax, height)
      img = np.empty((height, width), dtype=np.uint32)
      for i in prange(height):
          for j in prange(width):
              z = complex(r1[j], r2[i])
              result = julia_boundary(c, z, max_iter)
              if result >= 0:
                  img[i, j] = result
              else:
                  img[i, j] = 0  # Use 0 for points that do not escape
      return (r1, r2, img)
  \<close>
\<close>

definition julia_cell :: "int \<Rightarrow> 32 word" where
  "julia_cell result = (if result \<ge> 0 then word_of_int result else 0)"

definition julia_set_boundary ::
  "complex \<Rightarrow> real \<Rightarrow> real \<Rightarrow> real \<Rightarrow> real \<Rightarrow> int \<Rightarrow> int \<Rightarrow> int
     \<Rightarrow> error + (f64 list \<times> f64 list \<times> image)" where
  "julia_set_boundary c xmin xmax ymin ymax width height max_iter =
     (case linspace xmin xmax width of
        Inl e \<Rightarrow> Inl e
      | Inr r1 \<Rightarrow>
          (case linspace ymin ymax height of
             Inl e \<Rightarrow> Inl e
           | Inr r2 \<Rightarrow>
               Inr (r1, r2,
                    map (\<lambda>i. map (\<lambda>j. julia_cell (julia_boundary_at c (r1 ! j) (r2 ! i) max_iter))
                                [0..<nat width])
                        [0..<nat height])))"

section \<open>Properties of the evaluators\<close>

subsection \<open>Auxiliary facts about the loops\<close>

lemma cmod_gt_2_iff: "cmod z > 2 \<longleftrightarrow> (Re z)\<^sup>2 + (Im z)\<^sup>2 > 4"
proof -
  have "cmod z > 2 \<longleftrightarrow> sqrt ((Re z)\<^sup>2 + (Im z)\<^sup>2) > sqrt 4"
    by (simp add: cmod_def)
  then show ?thesis by (simp only: real_sqrt_less_iff)
qed


lemma mandelbrot_loop_zero: "mandelbrot_loop 0 0 n max_iter = max_iter"
proof (induction "nat (max_iter - n)" arbitrary: n)
  case 0
  then show ?case by (simp add: mandelbrot_loop.simps)
next
  case (Suc k)
  then have "nat (max_iter - (n + 1)) = k" by simp
  with Suc have "mandelbrot_loop 0 0 (n + 1) max_iter = max_iter" by metis
  then show ?case by (subst mandelbrot_loop.simps) simp
qed

lemma mandelbrot_loop_bounds:
  "n \<le> max_iter \<Longrightarrow>
   n \<le> mandelbrot_loop c z n max_iter \<and> mandelbrot_loop c z n max_iter \<le> max_iter"
proof (induction c z n max_iter rule: mandelbrot_loop.induct)
  case (1 c z n max_iter)
  show ?case
  proof (cases "n < max_iter \<and> \<not> cmod z > 2")
    case True
    with "1.IH" have "n + 1 \<le> mandelbrot_loop c (z * z + c) (n + 1) max_iter
        \<and> mandelbrot_loop c (z * z + c) (n + 1) max_iter \<le> max_iter"
      by simp
    with True show ?thesis by (subst (1 2) mandelbrot_loop.simps) simp
  next
    case False
    with "1.prems" show ?thesis by (subst (1 2) mandelbrot_loop.simps) auto
  qed
qed

lemma mandelbrot_first_step:
  "0 < max_iter \<Longrightarrow> mandelbrot c max_iter = mandelbrot_loop c c 1 max_iter"
  unfolding mandelbrot_def by (subst mandelbrot_loop.simps) simp

lemma mandelbrot_range:
  "0 \<le> max_iter \<Longrightarrow> 0 \<le> mandelbrot c max_iter \<and> mandelbrot c max_iter \<le> max_iter"
  using mandelbrot_loop_bounds [of 0 max_iter c 0] by (simp add: mandelbrot_def)

text \<open>
  The two loops differ only in the value returned when the range is exhausted; on
  every state they take the same branches.
\<close>

lemma loops_agree:
  "0 \<le> n \<Longrightarrow>
   (0 \<le> julia_boundary_loop c z n max_iter \<longrightarrow>
      mandelbrot_loop c z n max_iter = julia_boundary_loop c z n max_iter) \<and>
   (julia_boundary_loop c z n max_iter = - 1 \<longrightarrow> mandelbrot_loop c z n max_iter = max_iter) \<and>
   (julia_boundary_loop c z n max_iter = - 1 \<or>
      n \<le> julia_boundary_loop c z n max_iter \<and> julia_boundary_loop c z n max_iter < max_iter)"
proof (induction c z n max_iter rule: julia_boundary_loop.induct)
  case (1 c z n max_iter)
  show ?case
  proof (cases "n < max_iter \<and> \<not> cmod z > 2")
    case True
    then have j: "julia_boundary_loop c z n max_iter
        = julia_boundary_loop c (z * z + c) (n + 1) max_iter"
      by (subst julia_boundary_loop.simps) simp
    from True have m: "mandelbrot_loop c z n max_iter
        = mandelbrot_loop c (z * z + c) (n + 1) max_iter"
      by (subst mandelbrot_loop.simps) simp
    from "1.IH" True "1.prems" show ?thesis unfolding j m by auto
  next
    case False
    with "1.prems" show ?thesis
      by (subst (1 2 3 4 5 6) julia_boundary_loop.simps, subst (1 2) mandelbrot_loop.simps) auto
  qed
qed

lemma julia_boundary_range:
  "julia_boundary c z max_iter = - 1 \<or>
   0 \<le> julia_boundary c z max_iter \<and> julia_boundary c z max_iter < max_iter"
  using loops_agree [of 0 c z max_iter] by (simp add: julia_boundary_def)



lemma mandelbrot_loop_cnj:
  "mandelbrot_loop (cnj c) (cnj z) n max_iter = mandelbrot_loop c z n max_iter"
proof (induction c z n max_iter rule: mandelbrot_loop.induct)
  case (1 c z n max_iter)
  show ?case
  proof (cases "n < max_iter \<and> \<not> cmod z > 2")
    case True
    with "1.IH" have "mandelbrot_loop (cnj c) (cnj (z * z + c)) (n + 1) max_iter
        = mandelbrot_loop c (z * z + c) (n + 1) max_iter" by simp
    with True show ?thesis by (subst (1 2) mandelbrot_loop.simps) simp
  next
    case False
    then show ?thesis by (subst (1 2) mandelbrot_loop.simps) auto
  qed
qed

lemma mandelbrot_cnj: "mandelbrot (cnj c) max_iter = mandelbrot c max_iter"
  using mandelbrot_loop_cnj [of c 0 0 max_iter] by (simp add: mandelbrot_def)

subsection \<open>Auxiliary facts about float64 rounding\<close>

text \<open>
  \<open>fl64\<close> is evaluated at a given number from the binary exponent \<open>e\<close> of that number.
\<close>

lemma fl64_eval:
  assumes "x \<noteq> 0" and "2 powr real_of_int e \<le> \<bar>x\<bar>" and "\<bar>x\<bar> < 2 powr real_of_int (e + 1)"
    and "q = 2 powr real_of_int (max e (- 1022) - 52)"
  shows "fl64 x = real_of_int (round_half_even (x / q)) * q"
proof -
  have "\<lfloor>log 2 \<bar>x\<bar>\<rfloor> = e"
    using assms(1-3) by (simp add: floor_log_eq_powr_iff)
  then show ?thesis using assms(1,4) by (simp add: fl64_def Let_def)
qed

lemma fl64_0: "fl64 0 = 0" by (simp add: fl64_def)

text \<open>The values of \<open>fl64\<close> that occur in the sample grids below.\<close>

lemma fl64_value_1: "fl64 1 = 1"
  by (subst fl64_eval [where e = 0 and q = "1 / 2 ^ 52"])
    (simp_all add: powr_minus powr_numeral round_half_even_def divide_simps)

lemma fl64_value_2: "fl64 (- 1) = - 1"
  by (subst fl64_eval [where e = 0 and q = "1 / 2 ^ 52"])
    (simp_all add: powr_minus powr_numeral round_half_even_def divide_simps)

lemma fl64_value_3: "fl64 (1152921504606846975 / 1152921504606846976) = 1"
  by (subst fl64_eval [where e = "- 1" and q = "1 / 2 ^ 53"])
    (simp_all add: powr_minus powr_numeral round_half_even_def divide_simps)

lemma fl64_value_4: "fl64 2 = 2"
  by (subst fl64_eval [where e = 1 and q = "1 / 2 ^ 51"])
    (simp_all add: powr_minus powr_numeral round_half_even_def divide_simps)

lemma fl64_value_5: "fl64 4 = 4"
  by (subst fl64_eval [where e = 2 and q = "1 / 2 ^ 50"])
    (simp_all add: powr_minus powr_numeral round_half_even_def divide_simps)

lemma fl64_value_6: "fl64 (- 2) = - 2"
  by (subst fl64_eval [where e = 1 and q = "1 / 2 ^ 51"])
    (simp_all add: powr_minus powr_numeral round_half_even_def divide_simps)

lemma fl64_value_7: "fl64 (1 / 2) = 1 / 2"
  by (subst fl64_eval [where e = "- 1" and q = "1 / 2 ^ 53"])
    (simp_all add: powr_minus powr_numeral round_half_even_def divide_simps)

lemma fl64_value_8:
  "fl64 (7505999378950827 / 1125899906842624)
     = 7505999378950827 / 1125899906842624"
  by (subst fl64_eval [where e = 2 and q = "1 / 2 ^ 50"])
    (simp_all add: powr_minus powr_numeral round_half_even_def divide_simps)

lemma fl64_value_9:
  "fl64 (- (7505999378950827 / 2251799813685248))
     = - (7505999378950827 / 2251799813685248)"
  by (subst fl64_eval [where e = 1 and q = "1 / 2 ^ 51"])
    (simp_all add: powr_minus powr_numeral round_half_even_def divide_simps)

lemma fl64_value_10: "fl64 (1 / 5) = 3602879701896397 / 18014398509481984"
  by (subst fl64_eval [where e = "- 3" and q = "1 / 2 ^ 55"])
    (simp_all add: powr_minus powr_numeral round_half_even_def divide_simps)

lemma fl64_value_11:
  "fl64 (27043212804868896600756111470319 / 20282409603651670423947251286016)
     = 3002399751580331 / 2251799813685248"
  by (subst fl64_eval [where e = 0 and q = "1 / 2 ^ 52"])
    (simp_all add: powr_minus powr_numeral round_half_even_def divide_simps)

lemma fl64_value_12: "fl64 (2 / 5) = 3602879701896397 / 9007199254740992"
  by (subst fl64_eval [where e = "- 2" and q = "1 / 2 ^ 54"])
    (simp_all add: powr_minus powr_numeral round_half_even_def divide_simps)

lemma fl64_value_13:
  "fl64 (27043212804868896600756111470319 / 10141204801825835211973625643008)
     = 3002399751580331 / 1125899906842624"
  by (subst fl64_eval [where e = 1 and q = "1 / 2 ^ 51"])
    (simp_all add: powr_minus powr_numeral round_half_even_def divide_simps)

lemma fl64_value_14:
  "fl64 (- (1501199875790165 / 2251799813685248))
     = - (1501199875790165 / 2251799813685248)"
  by (subst fl64_eval [where e = "- 1" and q = "1 / 2 ^ 53"])
    (simp_all add: powr_minus powr_numeral round_half_even_def divide_simps)

lemma fl64_value_15: "fl64 (3 / 5) = 5404319552844595 / 9007199254740992"
  by (subst fl64_eval [where e = "- 1" and q = "1 / 2 ^ 53"])
    (simp_all add: powr_minus powr_numeral round_half_even_def divide_simps)

lemma fl64_value_16:
  "fl64 (40564819207303341148134477730065 / 10141204801825835211973625643008)
     = 4"
  by (subst fl64_eval [where e = 2 and q = "1 / 2 ^ 50"])
    (simp_all add: powr_minus powr_numeral round_half_even_def divide_simps)

lemma fl64_value_17:
  "fl64 (1501199875790165 / 2251799813685248)
     = 1501199875790165 / 2251799813685248"
  by (subst fl64_eval [where e = "- 1" and q = "1 / 2 ^ 53"])
    (simp_all add: powr_minus powr_numeral round_half_even_def divide_simps)

lemma fl64_value_18: "fl64 (4 / 5) = 3602879701896397 / 4503599627370496"
  by (subst fl64_eval [where e = "- 1" and q = "1 / 2 ^ 53"])
    (simp_all add: powr_minus powr_numeral round_half_even_def divide_simps)

lemma fl64_value_19:
  "fl64 (27043212804868896600756111470319 / 5070602400912917605986812821504)
     = 3002399751580331 / 562949953421312"
  by (subst fl64_eval [where e = 2 and q = "1 / 2 ^ 50"])
    (simp_all add: powr_minus powr_numeral round_half_even_def divide_simps)

lemma fl64_value_20:
  "fl64 (4503599627370497 / 2251799813685248)
     = 4503599627370497 / 2251799813685248"
  by (subst fl64_eval [where e = 1 and q = "1 / 2 ^ 51"])
    (simp_all add: powr_minus powr_numeral round_half_even_def divide_simps)

lemma fl64_value_21:
  "fl64 (7505999378950827 / 2251799813685248)
     = 7505999378950827 / 2251799813685248"
  by (subst fl64_eval [where e = 1 and q = "1 / 2 ^ 51"])
    (simp_all add: powr_minus powr_numeral round_half_even_def divide_simps)

lemmas fl64_values = fl64_0 fl64_value_1 fl64_value_2 fl64_value_3 fl64_value_4 fl64_value_5 fl64_value_6 fl64_value_7 fl64_value_8 fl64_value_9 fl64_value_10 fl64_value_11 fl64_value_12 fl64_value_13 fl64_value_14 fl64_value_15 fl64_value_16 fl64_value_17 fl64_value_18 fl64_value_19 fl64_value_20 fl64_value_21

subsection \<open>Auxiliary facts about the grid\<close>

lemma upt_2: "[0..<2] = [0, 1]" by (simp add: eval_nat_numeral)

lemma upt_3: "[0..<3] = [0, 1, 2]" by (simp add: eval_nat_numeral)

lemma upt_6: "[0..<6] = [0, 1, 2, 3, 4, 5]" by (simp add: eval_nat_numeral)

lemma linspace_negative: "num < 0 \<Longrightarrow> linspace start stop num = Inl ValueError"
  by (simp add: linspace_def)

lemma linspace_length:
  "0 \<le> num \<Longrightarrow> \<exists>ys. linspace start stop num = Inr ys \<and> length ys = nat num"
  by (simp add: linspace_def Let_def)

lemma linspace_single: "linspace start stop 1 = Inr [NaN]"
  by (simp add: linspace_def)

lemma linspace_finite:
  assumes "2 \<le> num"
  shows "\<exists>xs. linspace start stop num = Inr (map Finite xs) \<and> length xs = nat num \<and>
    (\<forall>i<nat num. xs ! i =
        fl64 (start + fl64 (fl64 (stop - start) * fl64 (real i / (real_of_int num - 1)))))"
proof -
  define xs where "xs = map (\<lambda>i. fl64 (start + fl64 (fl64 (stop - start)
      * fl64 (real i / (real_of_int num - 1))))) [0..<nat num]"
  have "linspace start stop num = Inr (map Finite xs)"
    using assms by (simp add: linspace_def Let_def xs_def comp_def)
  moreover have "length xs = nat num" by (simp add: xs_def)
  moreover have "\<forall>i<nat num. xs ! i =
        fl64 (start + fl64 (fl64 (stop - start) * fl64 (real i / (real_of_int num - 1))))"
    by (simp add: xs_def)
  ultimately show ?thesis by blast
qed

lemma mandelbrot_set_Inr:
  "mandelbrot_set xmin xmax ymin ymax width height max_iter = Inr (r1, r2, img) \<longleftrightarrow>
   linspace xmin xmax width = Inr r1 \<and> linspace ymin ymax height = Inr r2 \<and>
   img = map (\<lambda>i. map (\<lambda>j. word_of_int (mandelbrot_at (r1 ! j) (r2 ! i) max_iter))
                     [0..<nat width]) [0..<nat height]"
  by (auto simp: mandelbrot_set_def split: sum.splits)

lemma julia_set_boundary_Inr:
  "julia_set_boundary c xmin xmax ymin ymax width height max_iter = Inr (r1, r2, img) \<longleftrightarrow>
   linspace xmin xmax width = Inr r1 \<and> linspace ymin ymax height = Inr r2 \<and>
   img = map (\<lambda>i. map (\<lambda>j. julia_cell (julia_boundary_at c (r1 ! j) (r2 ! i) max_iter))
                     [0..<nat width]) [0..<nat height]"
  by (auto simp: julia_set_boundary_def split: sum.splits)

lemma mandelbrot_at_Finite:
  "mandelbrot_at (Finite x) (Finite y) max_iter = mandelbrot (Complex x y) max_iter"
  by (simp add: mandelbrot_at_def)

lemma mandelbrot_at_NaN:
  "x = NaN \<or> y = NaN \<Longrightarrow> mandelbrot_at x y max_iter = max_iter"
  by (auto simp: mandelbrot_at_def split: f64.splits)

lemma julia_boundary_at_Finite:
  "julia_boundary_at c (Finite x) (Finite y) max_iter = julia_boundary c (Complex x y) max_iter"
  by (simp add: julia_boundary_at_def)

lemma julia_boundary_at_NaN:
  "x = NaN \<or> y = NaN \<Longrightarrow> julia_boundary_at c x y max_iter = - 1"
  by (auto simp: julia_boundary_at_def split: f64.splits)

lemma mandelbrot_at_range:
  "0 \<le> max_iter \<Longrightarrow> 0 \<le> mandelbrot_at x y max_iter \<and> mandelbrot_at x y max_iter \<le> max_iter"
  using mandelbrot_range [of max_iter]
  by (auto simp: mandelbrot_at_def split: f64.splits)

lemma julia_cell_zero_iff:
  assumes "r = - 1 \<or> 0 \<le> r \<and> r < 2 ^ 32"
  shows "julia_cell r = 0 \<longleftrightarrow> r = - 1 \<or> r = 0"
proof (cases "r = - 1")
  case True
  then show ?thesis by (simp add: julia_cell_def)
next
  case False
  with assms have r: "0 \<le> r" "r < 2 ^ 32" by simp_all
  then have "uint (word_of_int r :: 32 word) = r"
    by (simp add: uint_word_of_int take_bit_eq_mod)
  then have "(word_of_int r :: 32 word) = 0 \<longleftrightarrow> r = 0"
    by (metis uint_0_eq word_of_int_0)
  with r False show ?thesis by (simp add: julia_cell_def)
qed

subsection \<open>Sample grids\<close>

text \<open>
  The samplers evaluated on small grids. Except in two of them, every coordinate and
  every iterate is computed without rounding error. In \<open>short_of_stop_grid\<close> the
  difference \<open>-2\<^sup>-\<^sup>6\<^sup>0 - (-1)\<close> rounds to 1. In \<open>asymmetric_grid\<close> the region is bounded
  by the float64 value of \<open>10 / 3\<close> and the coordinates of the rows are rounded; the only
  magnitudes near the threshold are those of the parameters \<open>-2 \<i>\<close> and
  \<open>(2 + 2\<^sup>-\<^sup>5\<^sup>1) \<i>\<close> of rows 1 and 4 in column 0, which float64 computes exactly.
\<close>

lemmas grid_eval = mandelbrot_set_def julia_set_boundary_def linspace_def mandelbrot_at_def
  julia_boundary_at_def julia_cell_def mandelbrot_def julia_boundary_def mandelbrot_loop.simps
  julia_boundary_loop.simps cmod_gt_2_iff power2_eq_square upt_2 upt_3 upt_6

lemma unit_square_grid:
  "mandelbrot_set 0 1 0 1 2 2 1
     = Inr ([Finite 0, Finite 1],
            [Finite 0, Finite 1],
            [[1, 1], [1, 1]])"
  by (simp add: grid_eval fl64_values)

lemma reversed_region_grid:
  "mandelbrot_set 1 0 1 0 2 2 3
     = Inr ([Finite 1, Finite 0],
            [Finite 1, Finite 0],
            [[2, 3], [3, 3]])"
  by (simp add: grid_eval fl64_values)

lemma short_of_stop_grid:
  "mandelbrot_set (- 1) (- (1 / 1152921504606846976)) (- 1) 1 2 2 1
     = Inr ([Finite (- 1), Finite 0],
            [Finite (- 1), Finite 1],
            [[1, 1], [1, 1]])"
  by (simp add: grid_eval fl64_values)

lemma julia_grid_radius_2:
  "julia_set_boundary 0 (- 2) 2 (- 2) 2 3 3 5
     = Inr ([Finite (- 2), Finite 0, Finite 2],
            [Finite (- 2), Finite 0, Finite 2],
            [[0, 1, 0], [1, 0, 1], [0, 1, 0]])"
  by (simp add: grid_eval fl64_values)

lemma julia_grid_radius_1:
  "julia_set_boundary 0 (- 1) 1 (- 1) 1 3 3 5
     = Inr ([Finite (- 1), Finite 0, Finite 1],
            [Finite (- 1), Finite 0, Finite 1],
            [[2, 0, 2], [0, 0, 0], [2, 0, 2]])"
  by (simp add: grid_eval fl64_values)

lemma asymmetric_grid:
  "mandelbrot_set 0 1 (- (7505999378950827 / 2251799813685248))
      (7505999378950827 / 2251799813685248) 2 6 3
     = Inr ([Finite 0, Finite 1],
            [Finite (- (7505999378950827 / 2251799813685248)), Finite (- 2),
             Finite (- (1501199875790165 / 2251799813685248)),
             Finite (1501199875790165 / 2251799813685248),
             Finite (4503599627370497 / 2251799813685248),
             Finite (7505999378950827 / 2251799813685248)],
            [[1, 1], [2, 1], [3, 2], [3, 2], [1, 1], [1, 1]])"
  by (simp add: grid_eval fl64_values)

section \<open>The claims about the escape evaluator\<close>






text \<open>
  Claim C6. For every parameter and every budget \<open>max_iter \<ge> 0\<close> the Mandelbrot result
  lies between 0 and \<open>max_iter\<close>; and every cell of a Mandelbrot grid computed with
  budget 1 holds 0 or 1.
\<close>

theorem mandelbrot_result_range:
  "(0 \<le> max_iter \<longrightarrow> 0 \<le> mandelbrot c max_iter \<and> mandelbrot c max_iter \<le> max_iter) \<and>
   (mandelbrot_set xmin xmax ymin ymax width height 1 = Inr (r1, r2, img) \<longrightarrow>
      (\<forall>row \<in> set img. \<forall>v \<in> set row. v = 0 \<or> v = 1))"
proof (rule conjI)
  show "0 \<le> max_iter \<longrightarrow> 0 \<le> mandelbrot c max_iter \<and> mandelbrot c max_iter \<le> max_iter"
    by (simp add: mandelbrot_range)
next
  have cell: "(word_of_int (mandelbrot_at x y 1) :: 32 word) = 0
      \<or> (word_of_int (mandelbrot_at x y 1) :: 32 word) = 1" for x y
  proof -
    from mandelbrot_at_range [of 1 x y]
    have "mandelbrot_at x y 1 = 0 \<or> mandelbrot_at x y 1 = 1" by auto
    then show ?thesis by auto
  qed
  show "mandelbrot_set xmin xmax ymin ymax width height 1 = Inr (r1, r2, img) \<longrightarrow>
      (\<forall>row \<in> set img. \<forall>v \<in> set row. v = 0 \<or> v = 1)"
  proof
    assume "mandelbrot_set xmin xmax ymin ymax width height 1 = Inr (r1, r2, img)"
    then have img: "img = map (\<lambda>i. map (\<lambda>j. word_of_int (mandelbrot_at (r1 ! j) (r2 ! i) 1))
                       [0..<nat width]) [0..<nat height]"
      by (simp add: mandelbrot_set_Inr)
    show "\<forall>row \<in> set img. \<forall>v \<in> set row. v = 0 \<or> v = 1"
      unfolding img using cell by auto
  qed
qed

theorem mandelbrot_result_range_witness:
  "(0::int) \<le> 5 \<and> 0 \<le> mandelbrot 3 5 \<and> mandelbrot 3 5 \<le> 5 \<and>
   mandelbrot_set 0 1 0 1 2 2 1 = Inr ([Finite 0, Finite 1], [Finite 0, Finite 1], [[1, 1], [1, 1]]) \<and>
   list_all (list_all (\<lambda>v. v = 0 \<or> v = 1)) [[1, 1], [1, 1 :: 32 word]]"
  using unit_square_grid
    mandelbrot_result_range [of 5 3 0 1 0 1 2 2 "[Finite 0, Finite 1]" "[Finite 0, Finite 1]"
      "[[1, 1], [1, 1]]"]
  by (simp add: list_all_iff)

text \<open>
  Claim C7. For every iteration budget, the Mandelbrot evaluation of the parameter 0
  returns the budget itself: the iterate stays 0 and the magnitude test never succeeds.
\<close>

theorem mandelbrot_origin: "mandelbrot 0 max_iter = max_iter"
  by (simp add: mandelbrot_def mandelbrot_loop_zero)

text \<open>
  Claim C9. Started at 0, the two evaluators agree: a non-negative result of
  \<open>julia_boundary c 0 max_iter\<close> is also the result of \<open>mandelbrot c max_iter\<close>, and
  when \<open>julia_boundary\<close> returns its sentinel \<open>-1\<close>, \<open>mandelbrot\<close> returns
  \<open>max_iter\<close>.
\<close>

theorem evaluators_agree_at_zero:
  "(0 \<le> julia_boundary c 0 max_iter \<longrightarrow> mandelbrot c max_iter = julia_boundary c 0 max_iter) \<and>
   (julia_boundary c 0 max_iter = - 1 \<longrightarrow> mandelbrot c max_iter = max_iter)"
  using loops_agree [of 0 c 0 max_iter] by (simp add: mandelbrot_def julia_boundary_def)

theorem evaluators_agree_at_zero_witness:
  "0 \<le> julia_boundary 3 0 5 \<and> mandelbrot 3 5 = julia_boundary 3 0 5 \<and>
   julia_boundary 0 0 5 = - 1 \<and> mandelbrot 0 5 = 5"
proof -
  have a: "julia_boundary 3 0 5 = 1"
    by (simp add: julia_boundary_def julia_boundary_loop.simps)
  have b: "julia_boundary 0 0 5 = - 1"
    by (simp add: julia_boundary_def julia_boundary_loop.simps)
  from a b show ?thesis
    using evaluators_agree_at_zero [of 3 5] evaluators_agree_at_zero [of 0 5] by simp
qed

text \<open>
  Claim C10. For every parameter and every budget of at least 1 the Mandelbrot result is
  at least 1: the first test sees the initial iterate 0, so 0 is never returned.
\<close>

theorem mandelbrot_at_least_one: "1 \<le> max_iter \<Longrightarrow> 1 \<le> mandelbrot c max_iter"
  using mandelbrot_loop_bounds [of 1 max_iter c c] by (simp add: mandelbrot_first_step)

theorem mandelbrot_at_least_one_witness: "(1::int) \<le> 5 \<and> 1 \<le> mandelbrot 3 5"
  using mandelbrot_at_least_one [of 5 3] by simp

section \<open>The claims about the grid samplers\<close>

text \<open>
  Claim C2, as amended. For \<open>width\<close> and \<open>height\<close> of at least 2 and region bounds of
  magnitude at most \<open>2\<^sup>1\<^sup>0\<^sup>2\<^sup>2\<close> (so that nothing overflows) both samplers return. The
  sample coordinates are \<open>xs ! j = xmin + (xmax - xmin) * (j / (width - 1))\<close> for
  \<open>j < width\<close> and \<open>ys ! i = ymin + (ymax - ymin) * (i / (height - 1))\<close> for
  \<open>i < height\<close>, with every operation rounded to float64; the first sample is the lower
  bound, the last one is computed like the others and is not set to the upper bound. The
  image has \<open>height\<close> rows of \<open>width\<close> cells. In row \<open>i\<close>, column \<open>j\<close> the
  Mandelbrot sampler stores the count for the point \<open>(xs ! j, ys ! i)\<close>; the Julia sampler
  stores the result for that point when it is non-negative and 0 when it is \<open>-1\<close>.
\<close>

theorem grid_sampling:
  assumes "2 \<le> width" and "2 \<le> height"
    and "\<bar>xmin\<bar> \<le> 2 ^ 1022" and "\<bar>xmax\<bar> \<le> 2 ^ 1022"
    and "\<bar>ymin\<bar> \<le> 2 ^ 1022" and "\<bar>ymax\<bar> \<le> 2 ^ 1022"
  shows "\<exists>xs ys img img'.
     mandelbrot_set xmin xmax ymin ymax width height max_iter
       = Inr (map Finite xs, map Finite ys, img) \<and>
     julia_set_boundary c xmin xmax ymin ymax width height max_iter
       = Inr (map Finite xs, map Finite ys, img') \<and>
     length xs = nat width \<and> length ys = nat height \<and>
     (\<forall>j<nat width. xs ! j =
        fl64 (xmin + fl64 (fl64 (xmax - xmin) * fl64 (real j / (real_of_int width - 1))))) \<and>
     (\<forall>i<nat height. ys ! i =
        fl64 (ymin + fl64 (fl64 (ymax - ymin) * fl64 (real i / (real_of_int height - 1))))) \<and>
     xs ! 0 = fl64 xmin \<and> ys ! 0 = fl64 ymin \<and>
     length img = nat height \<and> length img' = nat height \<and>
     (\<forall>i<nat height. length (img ! i) = nat width \<and> length (img' ! i) = nat width) \<and>
     (\<forall>i<nat height. \<forall>j<nat width.
        img ! i ! j = word_of_int (mandelbrot (Complex (xs ! j) (ys ! i)) max_iter) \<and>
        img' ! i ! j =
          (if 0 \<le> julia_boundary c (Complex (xs ! j) (ys ! i)) max_iter
           then word_of_int (julia_boundary c (Complex (xs ! j) (ys ! i)) max_iter)
           else 0))"
proof -
  from linspace_finite [OF assms(1), of xmin xmax] obtain xs where
    xs: "linspace xmin xmax width = Inr (map Finite xs)" "length xs = nat width" and
    xn: "\<forall>j<nat width. xs ! j =
        fl64 (xmin + fl64 (fl64 (xmax - xmin) * fl64 (real j / (real_of_int width - 1))))"
    by blast
  from linspace_finite [OF assms(2), of ymin ymax] obtain ys where
    ys: "linspace ymin ymax height = Inr (map Finite ys)" "length ys = nat height" and
    yn: "\<forall>i<nat height. ys ! i =
        fl64 (ymin + fl64 (fl64 (ymax - ymin) * fl64 (real i / (real_of_int height - 1))))"
    by blast
  define img where "img = map (\<lambda>i. map (\<lambda>j.
      (word_of_int (mandelbrot_at (map Finite xs ! j) (map Finite ys ! i) max_iter) :: 32 word))
      [0..<nat width]) [0..<nat height]"
  define img' where "img' = map (\<lambda>i. map (\<lambda>j.
      julia_cell (julia_boundary_at c (map Finite xs ! j) (map Finite ys ! i) max_iter))
      [0..<nat width]) [0..<nat height]"
  have m: "mandelbrot_set xmin xmax ymin ymax width height max_iter
      = Inr (map Finite xs, map Finite ys, img)"
    by (simp add: mandelbrot_set_Inr xs ys img_def)
  have j: "julia_set_boundary c xmin xmax ymin ymax width height max_iter
      = Inr (map Finite xs, map Finite ys, img')"
    by (simp add: julia_set_boundary_Inr xs ys img'_def)
  have x0: "xs ! 0 = fl64 xmin"
    using xn [rule_format, of 0] assms(1) by (simp add: fl64_0)
  have y0: "ys ! 0 = fl64 ymin"
    using yn [rule_format, of 0] assms(2) by (simp add: fl64_0)
  have len: "length img = nat height" "length img' = nat height"
    by (simp_all add: img_def img'_def)
  have rows: "\<forall>i<nat height. length (img ! i) = nat width \<and> length (img' ! i) = nat width"
    by (simp add: img_def img'_def)
  have cells: "\<forall>i<nat height. \<forall>j<nat width.
        img ! i ! j = word_of_int (mandelbrot (Complex (xs ! j) (ys ! i)) max_iter) \<and>
        img' ! i ! j =
          (if 0 \<le> julia_boundary c (Complex (xs ! j) (ys ! i)) max_iter
           then word_of_int (julia_boundary c (Complex (xs ! j) (ys ! i)) max_iter)
           else 0)"
    by (simp add: img_def img'_def xs(2) ys(2) mandelbrot_at_Finite julia_boundary_at_Finite
        julia_cell_def)
  show ?thesis
    apply (rule exI [of _ xs], rule exI [of _ ys], rule exI [of _ img], rule exI [of _ img'])
    apply (intro conjI)
    apply (fact m j xs(2) ys(2) xn yn x0 y0 len rows cells)+
    done
qed

text \<open>
  Claim C2 as originally stated fails in two ways. On the region \<open>[-1, 1] \<times> [-1, 1]\<close>
  sampled 3 by 3 with \<open>c = 0\<close> the result for the centre is \<open>-1\<close>, and the cell holds 0.
  On the region with \<open>xmin = -1\<close> and \<open>xmax = -2\<^sup>-\<^sup>6\<^sup>0\<close> sampled with width 2 the last
  sample is 0, not \<open>xmax\<close>.
\<close>

theorem grid_sampling_counterexample:
  "julia_set_boundary 0 (- 1) 1 (- 1) 1 3 3 5
     = Inr ([Finite (- 1), Finite 0, Finite 1], [Finite (- 1), Finite 0, Finite 1],
            [[2, 0, 2], [0, 0, 0], [2, 0, 2]]) \<and>
   julia_boundary 0 (Complex 0 0) 5 = - 1 \<and>
   mandelbrot_set (- 1) (- (1 / 2 ^ 60)) (- 1) 1 2 2 1
     = Inr ([Finite (- 1), Finite 0], [Finite (- 1), Finite 1], [[1, 1], [1, 1]])"
  using julia_grid_radius_1 short_of_stop_grid
  by (simp add: julia_boundary_def julia_boundary_loop.simps cmod_gt_2_iff)

theorem grid_sampling_witness:
  "(2::int) \<le> 3 \<and> \<bar>- 1 :: real\<bar> \<le> 2 ^ 1022 \<and> \<bar>1 :: real\<bar> \<le> 2 ^ 1022 \<and>
   (\<exists>xs ys img img'.
     mandelbrot_set (- 1) 1 (- 1) 1 3 3 5 = Inr (map Finite xs, map Finite ys, img) \<and>
     julia_set_boundary 0 (- 1) 1 (- 1) 1 3 3 5 = Inr (map Finite xs, map Finite ys, img') \<and>
     length xs = 3 \<and> length ys = 3 \<and> xs ! 0 = - 1 \<and> ys ! 0 = - 1 \<and>
     length img = 3 \<and> length img' = 3)"
proof -
  have w: "(2::int) \<le> 3" and a: "\<bar>- 1 :: real\<bar> \<le> 2 ^ 1022" and b: "\<bar>1 :: real\<bar> \<le> 2 ^ 1022"
    by simp_all
  from grid_sampling [OF w w a b a b, of 5 0]
  obtain xs ys img img' where
    m: "mandelbrot_set (- 1) 1 (- 1) 1 3 3 5 = Inr (map Finite xs, map Finite ys, img)" and
    j: "julia_set_boundary 0 (- 1) 1 (- 1) 1 3 3 5 = Inr (map Finite xs, map Finite ys, img')" and
    l: "length xs = nat 3" "length ys = nat 3" and
    e: "xs ! 0 = fl64 (- 1)" "ys ! 0 = fl64 (- 1)" and
    k: "length img = nat 3" "length img' = nat 3"
    by (elim exE conjE)
  show ?thesis
    apply (intro conjI w a b)
    apply (rule exI [of _ xs], rule exI [of _ ys], rule exI [of _ img], rule exI [of _ img'])
    using m j l e k by (simp add: fl64_values)
qed

text \<open>
  Claim C4, as amended. \<open>julia_boundary\<close> reports a point that does not escape by
  \<open>-1\<close>, which differs from every iteration count it can return (these lie in
  \<open>[0, max_iter)\<close>). \<open>julia_set_boundary\<close> however stores 0 in the cell of such a
  point: for budgets up to \<open>2\<^sup>3\<^sup>2\<close> a cell holds 0 exactly when the point escaped at
  iteration 0 or did not escape, so the two outcomes are not told apart in the image. A
  point with a NaN coordinate does not escape, and its cell holds 0 as well.
\<close>

theorem julia_sentinel_in_grid:
  "(julia_boundary c z max_iter = - 1 \<or>
      0 \<le> julia_boundary c z max_iter \<and> julia_boundary c z max_iter < max_iter) \<and>
   (max_iter \<le> 2 ^ 32 \<longrightarrow>
    julia_set_boundary c xmin xmax ymin ymax width height max_iter = Inr (r1, r2, img) \<longrightarrow>
    i < nat height \<longrightarrow> j < nat width \<longrightarrow>
      (r1 ! j = Finite x \<longrightarrow> r2 ! i = Finite y \<longrightarrow>
         (img ! i ! j = 0 \<longleftrightarrow>
            julia_boundary c (Complex x y) max_iter = - 1 \<or>
            julia_boundary c (Complex x y) max_iter = 0)) \<and>
      (r1 ! j = NaN \<or> r2 ! i = NaN \<longrightarrow> img ! i ! j = 0))"
proof (rule conjI)
  show "julia_boundary c z max_iter = - 1 \<or>
      0 \<le> julia_boundary c z max_iter \<and> julia_boundary c z max_iter < max_iter"
    by (rule julia_boundary_range)
next
  show "max_iter \<le> 2 ^ 32 \<longrightarrow>
    julia_set_boundary c xmin xmax ymin ymax width height max_iter = Inr (r1, r2, img) \<longrightarrow>
    i < nat height \<longrightarrow> j < nat width \<longrightarrow>
      (r1 ! j = Finite x \<longrightarrow> r2 ! i = Finite y \<longrightarrow>
         (img ! i ! j = 0 \<longleftrightarrow>
            julia_boundary c (Complex x y) max_iter = - 1 \<or>
            julia_boundary c (Complex x y) max_iter = 0)) \<and>
      (r1 ! j = NaN \<or> r2 ! i = NaN \<longrightarrow> img ! i ! j = 0)"
  proof (intro impI)
    assume bound: "max_iter \<le> 2 ^ 32"
      and grid: "julia_set_boundary c xmin xmax ymin ymax width height max_iter = Inr (r1, r2, img)"
      and i: "i < nat height" and j: "j < nat width"
    from grid i j have cell: "img ! i ! j = julia_cell (julia_boundary_at c (r1 ! j) (r2 ! i) max_iter)"
      by (simp add: julia_set_boundary_Inr)
    have finite: "img ! i ! j = 0 \<longleftrightarrow>
            julia_boundary c (Complex x y) max_iter = - 1 \<or>
            julia_boundary c (Complex x y) max_iter = 0"
      if "r1 ! j = Finite x" and "r2 ! i = Finite y"
    proof -
      let ?r = "julia_boundary c (Complex x y) max_iter"
      from julia_boundary_range [of c "Complex x y" max_iter] bound
      have "?r = - 1 \<or> 0 \<le> ?r \<and> ?r < 2 ^ 32" by auto
      then have "julia_cell ?r = 0 \<longleftrightarrow> ?r = - 1 \<or> ?r = 0"
        by (rule julia_cell_zero_iff)
      then show ?thesis by (simp add: cell that julia_boundary_at_Finite)
    qed
    have nan: "img ! i ! j = 0" if "r1 ! j = NaN \<or> r2 ! i = NaN"
      using that by (simp add: cell julia_boundary_at_NaN julia_cell_def)
    from finite nan show "(r1 ! j = Finite x \<longrightarrow> r2 ! i = Finite y \<longrightarrow>
         (img ! i ! j = 0 \<longleftrightarrow>
            julia_boundary c (Complex x y) max_iter = - 1 \<or>
            julia_boundary c (Complex x y) max_iter = 0)) \<and>
      (r1 ! j = NaN \<or> r2 ! i = NaN \<longrightarrow> img ! i ! j = 0)"
      by blast
  qed
qed

text \<open>
  Claim C4 as originally stated fails on the region \<open>[-2, 2] \<times> [-2, 2]\<close> sampled
  3 by 3 with \<open>c = 0\<close>: the corner \<open>(-2, -2)\<close> escapes at iteration 0, the centre
  never escapes, and both cells hold 0.
\<close>

theorem julia_sentinel_in_grid_counterexample:
  "julia_set_boundary 0 (- 2) 2 (- 2) 2 3 3 5
     = Inr ([Finite (- 2), Finite 0, Finite 2], [Finite (- 2), Finite 0, Finite 2],
            [[0, 1, 0], [1, 0, 1], [0, 1, 0]]) \<and>
   julia_boundary 0 (Complex (- 2) (- 2)) 5 = 0 \<and> julia_boundary 0 (Complex 0 0) 5 = - 1"
  using julia_grid_radius_2
  by (simp add: julia_boundary_def julia_boundary_loop.simps cmod_gt_2_iff)

theorem julia_sentinel_in_grid_witness:
  "(5::int) \<le> 2 ^ 32 \<and>
   julia_set_boundary 0 (- 2) 2 (- 2) 2 3 3 5
     = Inr ([Finite (- 2), Finite 0, Finite 2], [Finite (- 2), Finite 0, Finite 2],
            [[0, 1, 0], [1, 0, 1], [0, 1, 0]]) \<and>
   (1::nat) < nat 3 \<and>
   [[0, 1, 0], [1, 0, 1], [0, 1, 0 :: 32 word]] ! 1 ! 1 = 0 \<and>
   julia_boundary 0 (Complex 0 0) 5 = - 1 \<and>
   [[0, 1, 0], [1, 0, 1], [0, 1, 0 :: 32 word]] ! 0 ! 0 = 0 \<and>
   julia_boundary 0 (Complex (- 2) (- 2)) 5 = 0"
proof -
  have r: "julia_boundary 0 (Complex 0 0) 5 = - 1" "julia_boundary 0 (Complex (- 2) (- 2)) 5 = 0"
    by (simp_all add: julia_boundary_def julia_boundary_loop.simps cmod_gt_2_iff)
  from r show ?thesis
    using julia_grid_radius_2
      julia_sentinel_in_grid [of 0 0 5 "- 2" 2 "- 2" 2 3 3 "[Finite (- 2), Finite 0, Finite 2]"
        "[Finite (- 2), Finite 0, Finite 2]" "[[0, 1, 0], [1, 0, 1], [0, 1, 0]]" 1 1 0 0]
    by simp
qed

text \<open>
  Claim C5, as amended. The samplers make no check of the region and do not refuse a
  width or height of 0: for every \<open>width \<ge> 0\<close> and \<open>height \<ge> 0\<close> and all bounds of
  magnitude at most \<open>2\<^sup>1\<^sup>0\<^sup>2\<^sup>2\<close>, so that nothing overflows
  (also \<open>xmin \<ge> xmax\<close> or \<open>ymin \<ge> ymax\<close>), both return the two coordinate arrays and
  an image of \<open>height\<close> rows and \<open>width\<close> columns, and every cell holds what the
  evaluator gives at its sample point: the Mandelbrot count, respectively the Julia
  result or 0 in place of \<open>-1\<close>; at a NaN coordinate these are \<open>max_iter\<close> and 0. Only
  a negative width or height fails, with \<open>ValueError\<close>, and then nothing is evaluated.
\<close>

theorem sampler_accepts_any_region:
  "(0 \<le> width \<and> 0 \<le> height \<and>
    \<bar>xmin\<bar> \<le> 2 ^ 1022 \<and> \<bar>xmax\<bar> \<le> 2 ^ 1022 \<and> \<bar>ymin\<bar> \<le> 2 ^ 1022 \<and> \<bar>ymax\<bar> \<le> 2 ^ 1022 \<longrightarrow>
      (\<exists>r1 r2 img img'.
         mandelbrot_set xmin xmax ymin ymax width height max_iter = Inr (r1, r2, img) \<and>
         julia_set_boundary c xmin xmax ymin ymax width height max_iter = Inr (r1, r2, img') \<and>
         length r1 = nat width \<and> length r2 = nat height \<and>
         length img = nat height \<and> length img' = nat height \<and>
         (\<forall>i<nat height. length (img ! i) = nat width \<and> length (img' ! i) = nat width) \<and>
         (\<forall>i<nat height. \<forall>j<nat width.
            (\<forall>x y. r1 ! j = Finite x \<longrightarrow> r2 ! i = Finite y \<longrightarrow>
               img ! i ! j = word_of_int (mandelbrot (Complex x y) max_iter) \<and>
               img' ! i ! j =
                 (if 0 \<le> julia_boundary c (Complex x y) max_iter
                  then word_of_int (julia_boundary c (Complex x y) max_iter)
                  else 0)) \<and>
            (r1 ! j = NaN \<or> r2 ! i = NaN \<longrightarrow>
               img ! i ! j = word_of_int max_iter \<and> img' ! i ! j = 0)))) \<and>
   (width < 0 \<or> height < 0 \<longrightarrow>
      mandelbrot_set xmin xmax ymin ymax width height max_iter = Inl ValueError \<and>
      julia_set_boundary c xmin xmax ymin ymax width height max_iter = Inl ValueError)"
proof (rule conjI; rule impI)
  assume "0 \<le> width \<and> 0 \<le> height \<and>
    \<bar>xmin\<bar> \<le> 2 ^ 1022 \<and> \<bar>xmax\<bar> \<le> 2 ^ 1022 \<and> \<bar>ymin\<bar> \<le> 2 ^ 1022 \<and> \<bar>ymax\<bar> \<le> 2 ^ 1022"
  then have "0 \<le> width" and "0 \<le> height" by simp_all
  then obtain r1 r2 where r1: "linspace xmin xmax width = Inr r1" "length r1 = nat width"
    and r2: "linspace ymin ymax height = Inr r2" "length r2 = nat height"
    using linspace_length [of width xmin xmax] linspace_length [of height ymin ymax] by auto
  define img where "img = map (\<lambda>i. map (\<lambda>j.
      (word_of_int (mandelbrot_at (r1 ! j) (r2 ! i) max_iter) :: 32 word))
      [0..<nat width]) [0..<nat height]"
  define img' where "img' = map (\<lambda>i. map (\<lambda>j.
      julia_cell (julia_boundary_at c (r1 ! j) (r2 ! i) max_iter))
      [0..<nat width]) [0..<nat height]"
  have m: "mandelbrot_set xmin xmax ymin ymax width height max_iter = Inr (r1, r2, img)"
    by (simp add: mandelbrot_set_Inr r1 r2 img_def)
  have j: "julia_set_boundary c xmin xmax ymin ymax width height max_iter = Inr (r1, r2, img')"
    by (simp add: julia_set_boundary_Inr r1 r2 img'_def)
  have len: "length img = nat height" "length img' = nat height"
    by (simp_all add: img_def img'_def)
  have rows: "\<forall>i<nat height. length (img ! i) = nat width \<and> length (img' ! i) = nat width"
    by (simp add: img_def img'_def)
  have cells: "\<forall>i<nat height. \<forall>j<nat width.
            (\<forall>x y. r1 ! j = Finite x \<longrightarrow> r2 ! i = Finite y \<longrightarrow>
               img ! i ! j = word_of_int (mandelbrot (Complex x y) max_iter) \<and>
               img' ! i ! j =
                 (if 0 \<le> julia_boundary c (Complex x y) max_iter
                  then word_of_int (julia_boundary c (Complex x y) max_iter)
                  else 0)) \<and>
            (r1 ! j = NaN \<or> r2 ! i = NaN \<longrightarrow>
               img ! i ! j = word_of_int max_iter \<and> img' ! i ! j = 0)"
    by (auto simp: img_def img'_def mandelbrot_at_Finite julia_boundary_at_Finite
        mandelbrot_at_NaN julia_boundary_at_NaN julia_cell_def)
  show "\<exists>r1 r2 img img'.
         mandelbrot_set xmin xmax ymin ymax width height max_iter = Inr (r1, r2, img) \<and>
         julia_set_boundary c xmin xmax ymin ymax width height max_iter = Inr (r1, r2, img') \<and>
         length r1 = nat width \<and> length r2 = nat height \<and>
         length img = nat height \<and> length img' = nat height \<and>
         (\<forall>i<nat height. length (img ! i) = nat width \<and> length (img' ! i) = nat width) \<and>
         (\<forall>i<nat height. \<forall>j<nat width.
            (\<forall>x y. r1 ! j = Finite x \<longrightarrow> r2 ! i = Finite y \<longrightarrow>
               img ! i ! j = word_of_int (mandelbrot (Complex x y) max_iter) \<and>
               img' ! i ! j =
                 (if 0 \<le> julia_boundary c (Complex x y) max_iter
                  then word_of_int (julia_boundary c (Complex x y) max_iter)
                  else 0)) \<and>
            (r1 ! j = NaN \<or> r2 ! i = NaN \<longrightarrow>
               img ! i ! j = word_of_int max_iter \<and> img' ! i ! j = 0))"
    apply (rule exI [of _ r1], rule exI [of _ r2], rule exI [of _ img], rule exI [of _ img'])
    apply (intro conjI)
    apply (fact m j r1(2) r2(2) len rows cells)+
    done
next
  assume neg: "width < 0 \<or> height < 0"
  have "linspace xmin xmax width = Inl ValueError
      \<or> (\<exists>xs. linspace xmin xmax width = Inr xs) \<and> linspace ymin ymax height = Inl ValueError"
    using neg linspace_negative [of width xmin xmax] linspace_negative [of height ymin ymax]
      linspace_length [of width xmin xmax]
    by (cases "width < 0") auto
  then show "mandelbrot_set xmin xmax ymin ymax width height max_iter = Inl ValueError \<and>
      julia_set_boundary c xmin xmax ymin ymax width height max_iter = Inl ValueError"
    by (auto simp: mandelbrot_set_def julia_set_boundary_def)
qed

text \<open>
  Claim C5 as originally stated fails for the region with \<open>xmin = 1 \<ge> xmax = 0\<close>
  and \<open>ymin = 1 \<ge> ymax = 0\<close>, which is evaluated on a 2 by 2 grid, and for width and
  height 0, where the result is an empty image.
\<close>

theorem sampler_accepts_any_region_counterexample:
  "mandelbrot_set 1 0 1 0 2 2 3
     = Inr ([Finite 1, Finite 0], [Finite 1, Finite 0], [[2, 3], [3, 3]]) \<and>
   mandelbrot_set 0 1 0 1 0 0 5 = Inr ([], [], [])"
proof -
  have e: "mandelbrot_set 0 1 0 1 0 0 5 = Inr ([], [], [])"
    by (simp add: mandelbrot_set_def linspace_def)
  from reversed_region_grid e show ?thesis by simp
qed

theorem sampler_accepts_any_region_witness:
  "(0::int) \<le> 2 \<and> \<bar>1 :: real\<bar> \<le> 2 ^ 1022 \<and> \<bar>0 :: real\<bar> \<le> 2 ^ 1022 \<and>
   (\<exists>r1 r2 img img'.
      mandelbrot_set 1 0 1 0 2 2 3 = Inr (r1, r2, img) \<and>
      julia_set_boundary 0 1 0 1 0 2 2 3 = Inr (r1, r2, img') \<and>
      length r1 = 2 \<and> length r2 = 2 \<and> length img = 2 \<and> length img' = 2) \<and>
   (- 1 :: int) < 0 \<and> mandelbrot_set 0 1 0 1 (- 1) 2 5 = Inl ValueError"
proof -
  have s: "(0::int) \<le> 2 \<and> (0::int) \<le> 2 \<and>
    \<bar>1 :: real\<bar> \<le> 2 ^ 1022 \<and> \<bar>0 :: real\<bar> \<le> 2 ^ 1022 \<and> \<bar>1 :: real\<bar> \<le> 2 ^ 1022 \<and> \<bar>0 :: real\<bar> \<le> 2 ^ 1022"
    by simp
  from sampler_accepts_any_region [of 2 2 1 0 1 0 3 0, THEN conjunct1, rule_format, OF s]
  obtain r1 r2 img img' where
    m: "mandelbrot_set 1 0 1 0 2 2 3 = Inr (r1, r2, img)" and
    j: "julia_set_boundary 0 1 0 1 0 2 2 3 = Inr (r1, r2, img')" and
    l: "length r1 = nat 2" "length r2 = nat 2" "length img = nat 2" "length img' = nat 2"
    by (elim exE conjE)
  have e: "mandelbrot_set 0 1 0 1 (- 1) 2 5 = Inl ValueError"
    using sampler_accepts_any_region [of "- 1" 2 0 1 0 1 5 0] by simp
  have "\<exists>r1 r2 img img'.
      mandelbrot_set 1 0 1 0 2 2 3 = Inr (r1, r2, img) \<and>
      julia_set_boundary 0 1 0 1 0 2 2 3 = Inr (r1, r2, img') \<and>
      length r1 = 2 \<and> length r2 = 2 \<and> length img = 2 \<and> length img' = 2"
    apply (rule exI [of _ r1], rule exI [of _ r2], rule exI [of _ img], rule exI [of _ img'])
    using m j l by simp
  with e show ?thesis by simp
qed

text \<open>
  Claim C8, as amended. The Mandelbrot evaluator gives the same count for a parameter and
  its complex conjugate. The cells in row \<open>i\<close> and row \<open>height - 1 - i\<close> of a column of
  the Mandelbrot grid are therefore equal whenever the sample of row \<open>height - 1 - i\<close> is
  exactly the negative of the sample of row \<open>i\<close>. A range \<open>ymin = -ymax\<close> does not
  ensure this: the samples are rounded, and mirrored rows can receive coordinates of
  different magnitude and different counts.
\<close>

theorem mandelbrot_grid_symmetric:
  "mandelbrot (cnj c) max_iter = mandelbrot c max_iter \<and>
   (mandelbrot_set xmin xmax ymin ymax width height max_iter = Inr (r1, r2, img) \<longrightarrow>
    i < nat height \<longrightarrow> j < nat width \<longrightarrow>
    r2 ! i = Finite y \<longrightarrow> r2 ! (nat height - 1 - i) = Finite (- y) \<longrightarrow>
      img ! i ! j = img ! (nat height - 1 - i) ! j)"
proof (rule conjI)
  show "mandelbrot (cnj c) max_iter = mandelbrot c max_iter"
    by (rule mandelbrot_cnj)
next
  show "mandelbrot_set xmin xmax ymin ymax width height max_iter = Inr (r1, r2, img) \<longrightarrow>
    i < nat height \<longrightarrow> j < nat width \<longrightarrow>
    r2 ! i = Finite y \<longrightarrow> r2 ! (nat height - 1 - i) = Finite (- y) \<longrightarrow>
      img ! i ! j = img ! (nat height - 1 - i) ! j"
  proof (intro impI)
    assume grid: "mandelbrot_set xmin xmax ymin ymax width height max_iter = Inr (r1, r2, img)"
      and i: "i < nat height" and j: "j < nat width"
      and y: "r2 ! i = Finite y" and y': "r2 ! (nat height - 1 - i) = Finite (- y)"
    have i': "nat height - 1 - i < nat height" using i by simp
    have cell: "img ! k ! j = word_of_int (mandelbrot_at (r1 ! j) (r2 ! k) max_iter)"
      if "k < nat height" for k
      using grid j that by (simp add: mandelbrot_set_Inr)
    have "mandelbrot_at (r1 ! j) (Finite (- y)) max_iter
        = mandelbrot_at (r1 ! j) (Finite y) max_iter"
    proof (cases "r1 ! j")
      case (Finite x)
      have "Complex x (- y) = cnj (Complex x y)" by (simp add: complex_eq_iff)
      then show ?thesis by (simp add: Finite mandelbrot_at_Finite mandelbrot_cnj)
    next
      case NaN
      then show ?thesis by (simp add: mandelbrot_at_NaN)
    qed
    then show "img ! i ! j = img ! (nat height - 1 - i) ! j"
      by (simp only: cell [OF i] cell [OF i'] y y')
  qed
qed

text \<open>
  Claim C8 as originally stated fails on the region \<open>[0, 1] \<times> [-ymax, ymax]\<close> with
  \<open>ymax\<close> the float64 value of \<open>10 / 3\<close>, sampled with width 2, height 6 and budget 3:
  row 1 is sampled at \<open>-2\<close> and row 4 at \<open>2 + 2\<^sup>-\<^sup>5\<^sup>1\<close>, and in column 0 the counts are
  2 and 1.
\<close>

theorem mandelbrot_grid_symmetric_counterexample:
  "mandelbrot_set 0 1 (- (7505999378950827 / 2251799813685248))
      (7505999378950827 / 2251799813685248) 2 6 3
     = Inr ([Finite 0, Finite 1],
            [Finite (- (7505999378950827 / 2251799813685248)), Finite (- 2),
             Finite (- (1501199875790165 / 2251799813685248)),
             Finite (1501199875790165 / 2251799813685248),
             Finite (4503599627370497 / 2251799813685248),
             Finite (7505999378950827 / 2251799813685248)],
            [[1, 1], [2, 1], [3, 2], [3, 2], [1, 1], [1, 1]]) \<and>
   [[1, 1], [2, 1], [3, 2], [3, 2], [1, 1], [1, 1 :: 32 word]] ! 1 ! 0
     \<noteq> [[1, 1], [2, 1], [3, 2], [3, 2], [1, 1], [1, 1]] ! (nat 6 - 1 - 1) ! 0"
  using asymmetric_grid by simp

theorem mandelbrot_grid_symmetric_witness:
  "mandelbrot (cnj (Complex 1 (1501199875790165 / 2251799813685248))) 3 = 2 \<and>
   (2::nat) < nat 6 \<and> (1::nat) < nat 2 \<and>
   [[1, 1], [2, 1], [3, 2], [3, 2], [1, 1], [1, 1 :: 32 word]] ! 2 ! 1
     = [[1, 1], [2, 1], [3, 2], [3, 2], [1, 1], [1, 1]] ! (nat 6 - 1 - 2) ! 1"
proof -
  have v: "mandelbrot (Complex 1 (1501199875790165 / 2251799813685248)) 3 = 2"
    by (simp add: mandelbrot_def mandelbrot_loop.simps cmod_gt_2_iff power2_eq_square)
  have n: "nat 6 - 1 - 2 = (3::nat)" by simp
  note s = mandelbrot_grid_symmetric [of "Complex 1 (1501199875790165 / 2251799813685248)" 3
      0 1 "- (7505999378950827 / 2251799813685248)" "7505999378950827 / 2251799813685248" 2 6
      "[Finite 0, Finite 1]"
      "[Finite (- (7505999378950827 / 2251799813685248)), Finite (- 2),
        Finite (- (1501199875790165 / 2251799813685248)),
        Finite (1501199875790165 / 2251799813685248),
        Finite (4503599627370497 / 2251799813685248),
        Finite (7505999378950827 / 2251799813685248)]"
      "[[1, 1], [2, 1], [3, 2], [3, 2], [1, 1], [1, 1]]" 2 1
      "- (1501199875790165 / 2251799813685248)"]
  from s [THEN conjunct1] v have a: "mandelbrot (cnj (Complex 1 (1501199875790165 / 2251799813685248))) 3 = 2"
    by simp
  from s [THEN conjunct2] asymmetric_grid
  have b: "[[1, 1], [2, 1], [3, 2], [3, 2], [1, 1], [1, 1 :: 32 word]] ! 2 ! 1
     = [[1, 1], [2, 1], [3, 2], [3, 2], [1, 1], [1, 1]] ! (nat 6 - 1 - 2) ! 1"
    by (simp add: n)
  from a b show ?thesis by simp
qed

end
